theory Spec2Isabelle
  imports Main
begin

section \<open>Shared data model (mcp/shared/auth.py)\<close>

text \<open>
  A value of pydantic's \<open>AnyHttpUrl\<close> is represented by its string form; \<open>str(url)\<close> is
  the identity and \<open>==\<close> on URLs is equality of these strings.
\<close>

type_synonym AnyHttpUrl = string

text \<open>
  \<open>OAuthClientInformationFull\<close> (a subclass of \<open>OAuthClientMetadata\<close>). The fields read by
  the handlers are kept; the descriptive metadata (client name, logo, contacts, ...) is stored
  only and never read.
\<close>

record OAuthClientInformationFull =
  redirect_uris :: "AnyHttpUrl list"
  scope :: "string option"
  client_id :: string
  client_secret :: "string option"

text \<open>The exceptions that the modelled code raises or lets through.\<close>

datatype error_type = missing | string_type | literal_error | url_error

text \<open>One entry of \<open>ValidationError.errors()\<close>: the tuple \<open>loc\<close> and the \<open>type\<close>.\<close>

type_synonym error_details = "string list \<times> error_type"

datatype exn =
  ValidationError "error_details list"
| InvalidRequestError string
| InvalidScopeError string
| InvalidRedirectUriError string
| Exception string

text \<open>Python's \<open>s.split(" ")\<close>: cut at every single space, empty pieces kept.\<close>

fun split_sp :: "string \<Rightarrow> string list" where
  "split_sp [] = [[]]"
| "split_sp (c # cs) =
     (if c = CHR '' '' then [] # split_sp cs
      else (c # hd (split_sp cs)) # tl (split_sp cs))"

text \<open>
  The loop \<open>for scope in requested_scopes: if scope not in allowed_scopes: raise ...\<close>;
  the result is the first token that is not allowed, if there is one.
\<close>

fun first_not_allowed :: "string list \<Rightarrow> string list \<Rightarrow> string option" where
  "first_not_allowed [] allowed_scopes = None"
| "first_not_allowed (s # requested_scopes) allowed_scopes =
     (if s \<notin> set allowed_scopes then Some s
      else first_not_allowed requested_scopes allowed_scopes)"

definition allowed_scopes :: "OAuthClientInformationFull \<Rightarrow> string list" where
  "allowed_scopes client = (case scope client of None \<Rightarrow> [] | Some s \<Rightarrow> split_sp s)"

text \<open>\<open>OAuthClientMetadata.validate_scope\<close>.\<close>

definition OAuthClientMetadata_validate_scope ::
  "OAuthClientInformationFull \<Rightarrow> string option \<Rightarrow> exn + string list option" where
  "OAuthClientMetadata_validate_scope self requested_scope =
     (case requested_scope of
        None \<Rightarrow> Inr None
      | Some rs \<Rightarrow>
          (case first_not_allowed (split_sp rs) (allowed_scopes self) of
             Some s \<Rightarrow> Inl (InvalidScopeError (''Client was not registered with scope '' @ s))
           | None \<Rightarrow> Inr (Some (split_sp rs))))"

text \<open>\<open>OAuthClientMetadata.validate_redirect_uri\<close>.\<close>

definition OAuthClientMetadata_validate_redirect_uri ::
  "OAuthClientInformationFull \<Rightarrow> AnyHttpUrl option \<Rightarrow> exn + AnyHttpUrl" where
  "OAuthClientMetadata_validate_redirect_uri self redirect_uri =
     (case redirect_uri of
        Some u \<Rightarrow>
          (if u \<notin> set (redirect_uris self)
           then Inl (InvalidRedirectUriError
                  (''Redirect URI '' @ [CHR 0x27] @ u @ [CHR 0x27] @ '' not registered for client''))
           else Inr u)
      | None \<Rightarrow>
          (if length (redirect_uris self) = 1 then Inr (redirect_uris self ! 0)
           else Inl (InvalidRedirectUriError
                  ''redirect_uri must be specified when client has multiple registered URIs'')))"

section \<open>Authorization endpoint (mcp/server/auth/handlers/authorize.py)\<close>

subsection \<open>Validators\<close>

definition validate_scope ::
  "string option \<Rightarrow> OAuthClientInformationFull \<Rightarrow> exn + string list option" where
  "validate_scope requested_scope client =
     (case requested_scope of
        None \<Rightarrow> Inr None
      | Some rs \<Rightarrow>
          (case first_not_allowed (split_sp rs) (allowed_scopes client) of
             Some s \<Rightarrow> Inl (InvalidRequestError (''Client was not registered with scope '' @ s))
           | None \<Rightarrow> Inr (Some (split_sp rs))))"

definition validate_redirect_uri ::
  "AnyHttpUrl option \<Rightarrow> OAuthClientInformationFull \<Rightarrow> exn + AnyHttpUrl" where
  "validate_redirect_uri redirect_uri client =
     (case redirect_uri of
        Some u \<Rightarrow>
          (if u \<notin> set (redirect_uris client)
           then Inl (InvalidRequestError
                  (''Redirect URI '' @ [CHR 0x27] @ u @ [CHR 0x27] @ '' not registered for client''))
           else Inr u)
      | None \<Rightarrow>
          (if length (redirect_uris client) = 1 then Inr (redirect_uris client ! 0)
           else Inl (InvalidRequestError
                  ''redirect_uri must be specified when client has multiple registered URIs'')))"

subsection \<open>Requests and the typed request model\<close>

text \<open>
  A value of a Starlette \<open>QueryParams\<close> or \<open>FormData\<close>: a string, or an uploaded file
  (form bodies only). \<open>params.get(key)\<close>, \<open>params[key]\<close> and \<open>key in params\<close> all read the
  same dictionary, which is the map below.
\<close>

datatype pvalue = PStr string | UploadFile

type_synonym params = "string \<rightharpoonup> pvalue"

text \<open>
  The part of a Starlette \<open>Request\<close> that the handler reads. \<open>request.form()\<close> can raise
  on a body it cannot decode; \<open>form\<close> is then \<open>Inl\<close> of the exception.
\<close>

record Request =
  http_method :: string
  query_params :: params
  form :: "exn + params"

record AuthorizationRequest =
  ar_client_id :: string
  ar_redirect_uri :: "AnyHttpUrl option"
  ar_response_type :: string
  ar_code_challenge :: string
  ar_code_challenge_method :: string
  ar_state :: "string option"
  ar_scope :: "string option"

record AuthorizationParams =
  ap_state :: "string option"
  ap_scopes :: "string list option"
  ap_code_challenge :: string
  ap_redirect_uri :: AnyHttpUrl

text \<open>
  What the handler is created with and what it imports from outside the modelled files:
  the lookup of the provider's client store (\<open>None\<close>: not found), the provider's
  authorization decision (\<open>Inl\<close>: the call raises, \<open>Inr\<close>: the URI to redirect to),
  pydantic's parser of \<open>AnyHttpUrl\<close> (\<open>None\<close>: not a well-formed http(s) URL, otherwise the
  URL), and \<open>stringify_pydantic_error\<close> of \<open>mcp.server.auth.errors\<close>.
\<close>

record env =
  get_client :: "string \<Rightarrow> OAuthClientInformationFull option"
  authorize :: "OAuthClientInformationFull \<Rightarrow> AuthorizationParams \<Rightarrow> exn + string"
  AnyHttpUrl_validate :: "string \<Rightarrow> AnyHttpUrl option"
  stringify_pydantic_error :: "error_details list \<Rightarrow> string"

text \<open>
  Pydantic's validation of the fields of \<open>AuthorizationRequest\<close>. A required field that is
  absent gives an error of type \<open>missing\<close>; a \<open>str\<close> field given a non-string gives
  \<open>string_type\<close>; a \<open>Literal\<close> field given anything but its literal gives \<open>literal_error\<close>;
  a URL field given a non-string or a string that is no URL gives a URL error.
\<close>

definition validate_str :: "string \<Rightarrow> params \<Rightarrow> error_details + string" where
  "validate_str k ps =
     (case ps k of
        None \<Rightarrow> Inl ([k], missing)
      | Some UploadFile \<Rightarrow> Inl ([k], string_type)
      | Some (PStr s) \<Rightarrow> Inr s)"

definition validate_opt_str :: "string \<Rightarrow> params \<Rightarrow> error_details + string option" where
  "validate_opt_str k ps =
     (case ps k of
        None \<Rightarrow> Inr None
      | Some UploadFile \<Rightarrow> Inl ([k], string_type)
      | Some (PStr s) \<Rightarrow> Inr (Some s))"

definition validate_literal ::
  "string \<Rightarrow> string \<Rightarrow> string option \<Rightarrow> params \<Rightarrow> error_details + string" where
  "validate_literal k lit dflt ps =
     (case ps k of
        None \<Rightarrow> (case dflt of None \<Rightarrow> Inl ([k], missing) | Some d \<Rightarrow> Inr d)
      | Some v \<Rightarrow> (if v = PStr lit then Inr lit else Inl ([k], literal_error)))"

definition validate_opt_url ::
  "env \<Rightarrow> string \<Rightarrow> params \<Rightarrow> error_details + AnyHttpUrl option" where
  "validate_opt_url e k ps =
     (case ps k of
        None \<Rightarrow> Inr None
      | Some UploadFile \<Rightarrow> Inl ([k], url_error)
      | Some (PStr s) \<Rightarrow>
          (case AnyHttpUrl_validate e s of
             None \<Rightarrow> Inl ([k], url_error)
           | Some u \<Rightarrow> Inr (Some u)))"

definition errors_of :: "error_details + 'a \<Rightarrow> error_details list" where
  "errors_of r = (case r of Inl err \<Rightarrow> [err] | Inr _ \<Rightarrow> [])"

text \<open>\<open>AuthorizationRequest.model_validate(params)\<close>; \<open>Inl\<close> carries \<open>errors()\<close>.\<close>

definition model_validate :: "env \<Rightarrow> params \<Rightarrow> error_details list + AuthorizationRequest" where
  "model_validate e ps =
     (let f_client_id = validate_str ''client_id'' ps;
          f_redirect_uri = validate_opt_url e ''redirect_uri'' ps;
          f_response_type = validate_literal ''response_type'' ''code'' None ps;
          f_code_challenge = validate_str ''code_challenge'' ps;
          f_code_challenge_method =
            validate_literal ''code_challenge_method'' ''S256'' (Some ''S256'') ps;
          f_state = validate_opt_str ''state'' ps;
          f_scope = validate_opt_str ''scope'' ps;
          errs = errors_of f_client_id @ errors_of f_redirect_uri @ errors_of f_response_type
               @ errors_of f_code_challenge @ errors_of f_code_challenge_method
               @ errors_of f_state @ errors_of f_scope
      in if errs \<noteq> [] then Inl errs
         else Inr \<lparr>ar_client_id = projr f_client_id,
                   ar_redirect_uri = projr f_redirect_uri,
                   ar_response_type = projr f_response_type,
                   ar_code_challenge = projr f_code_challenge,
                   ar_code_challenge_method = projr f_code_challenge_method,
                   ar_state = projr f_state,
                   ar_scope = projr f_scope\<rparr>)"

text \<open>\<open>AnyHttpUrlModel.model_validate(value).root\<close> on the result of a best-effort read.\<close>

definition AnyHttpUrlModel_model_validate :: "env \<Rightarrow> string option \<Rightarrow> exn + AnyHttpUrl" where
  "AnyHttpUrlModel_model_validate e v =
     (case v of
        None \<Rightarrow> Inl (ValidationError [([], url_error)])
      | Some s \<Rightarrow>
          (case AnyHttpUrl_validate e s of
             None \<Rightarrow> Inl (ValidationError [([], url_error)])
           | Some u \<Rightarrow> Inr u))"

definition best_effort_extract_string :: "string \<Rightarrow> params option \<Rightarrow> string option" where
  "best_effort_extract_string key ps =
     (case ps of
        None \<Rightarrow> None
      | Some m \<Rightarrow> (case m key of Some (PStr s) \<Rightarrow> Some s | _ \<Rightarrow> None))"

subsection \<open>Error reports and responses\<close>

datatype ErrorCode =
  invalid_request | unauthorized_client | access_denied | unsupported_response_type
| invalid_scope | server_error | temporarily_unavailable

fun ErrorCode_str :: "ErrorCode \<Rightarrow> string" where
  "ErrorCode_str invalid_request = ''invalid_request''"
| "ErrorCode_str unauthorized_client = ''unauthorized_client''"
| "ErrorCode_str access_denied = ''access_denied''"
| "ErrorCode_str unsupported_response_type = ''unsupported_response_type''"
| "ErrorCode_str invalid_scope = ''invalid_scope''"
| "ErrorCode_str server_error = ''server_error''"
| "ErrorCode_str temporarily_unavailable = ''temporarily_unavailable''"

record ErrorResponse =
  error :: ErrorCode
  error_description :: string
  error_uri :: "string option"
  er_state :: "string option"

text \<open>\<open>error_resp.model_dump(exclude_none=True)\<close>, in field order.\<close>

definition model_dump :: "ErrorResponse \<Rightarrow> (string \<times> string) list" where
  "model_dump r =
     [(''error'', ErrorCode_str (error r)), (''error_description'', error_description r)]
     @ (case error_uri r of None \<Rightarrow> [] | Some u \<Rightarrow> [(''error_uri'', u)])
     @ (case er_state r of None \<Rightarrow> [] | Some s \<Rightarrow> [(''state'', s)])"

text \<open>
  The \<open>url\<close> given to a \<open>RedirectResponse\<close>. \<open>construct_redirect_uri\<close> belongs to
  \<open>mcp.server.auth.provider\<close>, which is not among the modelled files: a call of it is
  recorded with its two arguments, the base URI and the keyword arguments.
\<close>

datatype redirect_url =
  construct_redirect_uri AnyHttpUrl "(string \<times> string) list"
| url_literal string

text \<open>
  The responses. \<open>headers\<close> holds the headers that the handler sets itself, in order;
  Starlette derives the \<open>location\<close> header of a \<open>RedirectResponse\<close> from \<open>url\<close>. A plain
  \<open>Response\<close> built without content has the empty body.
\<close>

datatype Response =
  RedirectResponse (url: redirect_url) (status_code: nat) (headers: "(string \<times> string) list")
| PydanticJSONResponse (status_code: nat) (content: ErrorResponse)
    (headers: "(string \<times> string) list")
| Response (status_code: nat) (body: string) (headers: "(string \<times> string) list")

subsection \<open>The handler and its closure\<close>

text \<open>
  The value of the closure variable \<open>client\<close>: \<open>None\<close>, a registration, or the empty string
  that \<open>client_id and ...\<close> yields for an empty \<open>client_id\<close>.
\<close>

datatype client_value = PyNone | EmptyStr | Client OAuthClientInformationFull

fun truthy :: "client_value \<Rightarrow> bool" where
  "truthy (Client c) = True"
| "truthy PyNone = False"
| "truthy EmptyStr = False"

text \<open>The variables \<open>state\<close>, \<open>redirect_uri\<close>, \<open>client\<close>, \<open>params\<close> shared with \<open>error_response\<close>.\<close>

record handler_vars =
  state :: "string option"
  redirect_uri :: "AnyHttpUrl option"
  client :: client_value
  params :: "params option"

text \<open>Lines 123-126: the last-ditch attempt to load the client.\<close>

definition load_client :: "env \<Rightarrow> bool \<Rightarrow> handler_vars \<Rightarrow> handler_vars" where
  "load_client e attempt_load_client v =
     (if client v = PyNone \<and> attempt_load_client then
        (case best_effort_extract_string ''client_id'' (params v) of
           None \<Rightarrow> v\<lparr>client := PyNone\<rparr>
         | Some cid \<Rightarrow>
             (if cid = [] then v\<lparr>client := EmptyStr\<rparr>
              else (case get_client e cid of
                      None \<Rightarrow> v\<lparr>client := PyNone\<rparr>
                    | Some c \<Rightarrow> v\<lparr>client := Client c\<rparr>)))
      else v)"

text \<open>
  Lines 127-136: the last-ditch effort to load the redirect URI. The parse of the raw value
  stands before the \<open>try\<close>, so its \<open>ValidationError\<close> leaves the function; an exception of
  \<open>validate_redirect_uri\<close> is swallowed.
\<close>

definition load_redirect_uri :: "env \<Rightarrow> handler_vars \<Rightarrow> exn + handler_vars" where
  "load_redirect_uri e v =
     (case client v of
        Client c \<Rightarrow>
          (if redirect_uri v = None then
             (case (if (case params v of None \<Rightarrow> False
                         | Some ps \<Rightarrow> ps ''redirect_uri'' = None)
                    then Inr None
                    else map_sum id Some
                           (AnyHttpUrlModel_model_validate e
                              (best_effort_extract_string ''redirect_uri'' (params v)))) of
                Inl ex \<Rightarrow> Inl ex
              | Inr raw_redirect_uri \<Rightarrow>
                  (case validate_redirect_uri raw_redirect_uri c of
                     Inr u \<Rightarrow> Inr (v\<lparr>redirect_uri := Some u\<rparr>)
                   | Inl _ \<Rightarrow> Inr v))
           else Inr v)
      | _ \<Rightarrow> Inr v)"

text \<open>Lines 137-139: the last-ditch effort to load the state.\<close>

definition load_state :: "handler_vars \<Rightarrow> handler_vars" where
  "load_state v =
     (if state v = None then v\<lparr>state := best_effort_extract_string ''state'' (params v)\<rparr>
      else v)"

text \<open>
  Lines 141-158: the report and the choice of the channel. A URL object is truthy, so
  \<open>if redirect_uri and client\<close> asks whether a redirect URI is held and the client is a
  registration.
\<close>

definition report :: "ErrorCode \<Rightarrow> string \<Rightarrow> handler_vars \<Rightarrow> Response" where
  "report err descr v =
     (let error_resp = \<lparr>error = err, error_description = descr, error_uri = None,
                        er_state = state v\<rparr>
      in case redirect_uri v of
           Some u \<Rightarrow>
             (if truthy (client v)
              then RedirectResponse (construct_redirect_uri u (model_dump error_resp)) 302
                     [(''Cache-Control'', ''no-store'')]
              else PydanticJSONResponse 400 error_resp [(''Cache-Control'', ''no-store'')])
         | None \<Rightarrow> PydanticJSONResponse 400 error_resp [(''Cache-Control'', ''no-store'')])"

text \<open>
  The closure \<open>error_response\<close>: it returns a response or raises, and in both cases the
  assignments it made to the shared variables stay.
\<close>

definition error_response ::
  "env \<Rightarrow> ErrorCode \<Rightarrow> string \<Rightarrow> bool \<Rightarrow> handler_vars \<Rightarrow> (exn + Response) \<times> handler_vars" where
  "error_response e err descr attempt_load_client v =
     (let v1 = load_client e attempt_load_client v
      in case load_redirect_uri e v1 of
           Inl ex \<Rightarrow> (Inl ex, v1)
         | Inr v2 \<Rightarrow> (let v3 = load_state v2 in (Inr (report err descr v3), v3)))"

text \<open>The loop over \<open>validation_error.errors()\<close> that picks the error code.\<close>

fun classify :: "error_details list \<Rightarrow> ErrorCode" where
  "classify [] = invalid_request"
| "classify (d # ds) =
     (if fst d = [''response_type''] \<and> snd d = literal_error then unsupported_response_type
      else classify ds)"

text \<open>
  Lines 162-167, the choice of the parameter bag, and then the body of the outer \<open>try\<close>:
  \<open>Inl\<close> is an exception that reaches the \<open>except\<close> clause, together with the shared
  variables as they are at that moment.
\<close>

definition request_params :: "Request \<Rightarrow> exn + params" where
  "request_params request =
     (if http_method request = ''GET'' then Inr (query_params request) else form request)"

definition handler_try :: "env \<Rightarrow> Request \<Rightarrow> handler_vars \<Rightarrow> (exn + Response) \<times> handler_vars" where
  "handler_try e request v0 =
     (case request_params request of
        Inl ex \<Rightarrow> (Inl ex, v0)
      | Inr ps \<Rightarrow>
          (let v1 = v0\<lparr>params := Some ps\<rparr>;
               v2 = v1\<lparr>state := best_effort_extract_string ''state'' (Some ps)\<rparr>
           in case model_validate e ps of
                Inl errs \<Rightarrow>
                  error_response e (classify errs) (stringify_pydantic_error e errs) True v2
              | Inr auth_request \<Rightarrow>
                  (let v3 = v2\<lparr>state := ar_state auth_request\<rparr>
                   in case get_client e (ar_client_id auth_request) of
                        None \<Rightarrow>
                          error_response e invalid_request
                            (''Client ID '' @ [CHR 0x27] @ ar_client_id auth_request @ [CHR 0x27]
                               @ '' not found'')
                            False (v3\<lparr>client := PyNone\<rparr>)
                      | Some c \<Rightarrow>
                          (let v4 = v3\<lparr>client := Client c\<rparr>
                           in case validate_redirect_uri (ar_redirect_uri auth_request) c of
                                Inl ex \<Rightarrow>
                                  (case ex of
                                     InvalidRequestError msg \<Rightarrow>
                                       error_response e invalid_request msg True v4
                                   | _ \<Rightarrow> (Inl ex, v4))
                              | Inr u \<Rightarrow>
                                  (let v5 = v4\<lparr>redirect_uri := Some u\<rparr>
                                   in case validate_scope (ar_scope auth_request) c of
                                        Inl ex \<Rightarrow>
                                          (case ex of
                                             InvalidRequestError msg \<Rightarrow>
                                               error_response e invalid_scope msg True v5
                                           | _ \<Rightarrow> (Inl ex, v5))
                                      | Inr scopes \<Rightarrow>
                                          (case authorize e c
                                                  \<lparr>ap_state = state v5, ap_scopes = scopes,
                                                   ap_code_challenge =
                                                     ar_code_challenge auth_request,
                                                   ap_redirect_uri = u\<rparr> of
                                             Inl ex \<Rightarrow> (Inl ex, v5)
                                           | Inr location \<Rightarrow>
                                               (Inr (RedirectResponse (url_literal []) 302
                                                       [(''Cache-Control'', ''no-store''),
                                                        (''location'', location)]),
                                                v5)))))))"

text \<open>
  \<open>authorization_handler\<close>: the \<open>try\<close> and its catch-all \<open>except Exception\<close>, which reports
  \<open>server_error\<close> through \<open>error_response\<close>. \<open>Inl\<close> is an exception that leaves the handler.
\<close>

definition authorization_handler :: "env \<Rightarrow> Request \<Rightarrow> exn + Response" where
  "authorization_handler e request =
     (case handler_try e request
             \<lparr>state = None, redirect_uri = None, client = PyNone, params = None\<rparr> of
        (Inr response, v) \<Rightarrow> Inr response
      | (Inl ex, v) \<Rightarrow>
          fst (error_response e server_error ''An unexpected error occurred'' True v))"


section \<open>Revocation endpoint (mcp/server/auth/handlers/revoke.py)\<close>

text \<open>
  The handler is created with a provider and a client authenticator. The request type
  \<open>'r\<close> (\<open>RevocationRequest\<close>, whose base classes are not among the modelled files) and the
  provider's store \<open>'s\<close> are parameters. \<open>model_validate_json\<close> is the parser of the body
  (\<open>Inl\<close>: the text of its \<open>ValidationError\<close>); \<open>client_authenticator\<close> returns the
  authenticated client or raises. \<open>revoke_token\<close> is the optional hook: a call of it acts on
  the provider's store and then returns (\<open>None\<close>) or raises (\<open>Some\<close> of the exception). The
  handler awaits it outside any \<open>try\<close>, so an exception of the hook leaves the handler.
\<close>

record ('r, 's) revoke_env =
  model_validate_json :: "string \<Rightarrow> string + 'r"
  client_authenticator :: "'r \<Rightarrow> exn + OAuthClientInformationFull"
  revoke_token :: "(OAuthClientInformationFull \<Rightarrow> 'r \<Rightarrow> 's \<Rightarrow> exn option \<times> 's) option"

text \<open>
  The world that the handler acts on: the provider's store and the log of the calls of the
  hook made so far.
\<close>

record ('r, 's) revoke_world =
  store :: 's
  hook_calls :: "(OAuthClientInformationFull \<times> 'r) list"

definition revocation_handler ::
  "('r, 's) revoke_env \<Rightarrow> string \<Rightarrow> ('r, 's) revoke_world
     \<Rightarrow> (exn + Response) \<times> ('r, 's) revoke_world" where
  "revocation_handler e request_body w =
     (case model_validate_json e request_body of
        Inl msg \<Rightarrow> (Inl (InvalidRequestError (''Invalid request body: '' @ msg)), w)
      | Inr revocation_request \<Rightarrow>
          (case client_authenticator e revocation_request of
             Inl ex \<Rightarrow> (Inl ex, w)
           | Inr client_auth_result \<Rightarrow>
               (case revoke_token e of
                  None \<Rightarrow>
                    (Inr (Response 200 []
                            [(''Cache-Control'', ''no-store''), (''Pragma'', ''no-cache'')]),
                     w)
                | Some hook \<Rightarrow>
                    (case hook client_auth_result revocation_request (store w) of
                       (raised, store') \<Rightarrow>
                         (let w' = w\<lparr>store := store',
                                     hook_calls := hook_calls w
                                       @ [(client_auth_result, revocation_request)]\<rparr>
                          in case raised of
                               Some ex \<Rightarrow> (Inl ex, w')
                             | None \<Rightarrow>
                                 (Inr (Response 200 []
                                         [(''Cache-Control'', ''no-store''),
                                          (''Pragma'', ''no-cache'')]),
                                  w'))))))"

section \<open>Vocabulary of the properties\<close>

text \<open>The parameter bag of a request, when reading it did not raise.\<close>

definition params_of :: "Request \<Rightarrow> params option" where
  "params_of request = (case request_params request of Inl _ \<Rightarrow> None | Inr ps \<Rightarrow> Some ps)"

text \<open>
  The error code and the state that a response reports: the fields of the body of a JSON
  response, the keyword arguments \<open>error\<close> and \<open>state\<close> of an error redirect.
\<close>

fun is_error_report :: "Response \<Rightarrow> bool" where
  "is_error_report (PydanticJSONResponse sc c hs) = True"
| "is_error_report (RedirectResponse (construct_redirect_uri u q) sc hs) = True"
| "is_error_report (RedirectResponse (url_literal l) sc hs) = False"
| "is_error_report (Response sc b hs) = False"

fun reported_error :: "Response \<Rightarrow> string option" where
  "reported_error (PydanticJSONResponse sc c hs) = Some (ErrorCode_str (error c))"
| "reported_error (RedirectResponse (construct_redirect_uri u q) sc hs) = map_of q ''error''"
| "reported_error (RedirectResponse (url_literal l) sc hs) = None"
| "reported_error (Response sc b hs) = None"

fun reported_state :: "Response \<Rightarrow> string option" where
  "reported_state (PydanticJSONResponse sc c hs) = er_state c"
| "reported_state (RedirectResponse (construct_redirect_uri u q) sc hs) = map_of q ''state''"
| "reported_state (RedirectResponse (url_literal l) sc hs) = None"
| "reported_state (Response sc b hs) = None"

text \<open>
  \<open>resolved\<close>: the client is the registration that the client store holds for the raw
  \<open>client_id\<close> string of the request. \<open>verified\<close>: the URI is what \<open>validate_redirect_uri\<close>
  returns for this client on the request's \<open>redirect_uri\<close> (absent, or a string that parses
  as a URL).
\<close>

definition resolved :: "env \<Rightarrow> params option \<Rightarrow> OAuthClientInformationFull \<Rightarrow> bool" where
  "resolved e ps c =
     (case best_effort_extract_string ''client_id'' ps of
        None \<Rightarrow> False
      | Some cid \<Rightarrow> get_client e cid = Some c)"

definition verified ::
  "env \<Rightarrow> params option \<Rightarrow> OAuthClientInformationFull \<Rightarrow> AnyHttpUrl \<Rightarrow> bool" where
  "verified e pso c u =
     (case pso of
        None \<Rightarrow> False
      | Some ps \<Rightarrow>
          (case ps ''redirect_uri'' of
             None \<Rightarrow> validate_redirect_uri None c = Inr u
           | Some UploadFile \<Rightarrow> False
           | Some (PStr s) \<Rightarrow>
               (case AnyHttpUrl_validate e s of
                  None \<Rightarrow> False
                | Some u' \<Rightarrow> validate_redirect_uri (Some u') c = Inr u)))"

text \<open>
  The invariant of the shared variables during one call of the handler: \<open>params\<close> is the
  request's bag, \<open>state\<close> is unset or the raw \<open>state\<close> string, a client held is resolved, and
  a redirect URI held comes with a client against which it is verified.
\<close>

definition vars_ok :: "env \<Rightarrow> Request \<Rightarrow> handler_vars \<Rightarrow> bool" where
  "vars_ok e request v =
     (params v = params_of request
      \<and> (state v = None \<or> state v = best_effort_extract_string ''state'' (params v))
      \<and> (\<forall>c. client v = Client c \<longrightarrow> resolved e (params v) c)
      \<and> (\<forall>u. redirect_uri v = Some u \<longrightarrow>
             (\<exists>c. client v = Client c \<and> verified e (params v) c u)))"

section \<open>Example data\<close>

text \<open>
  The client of the specification's example, registered with one redirect URI and the scope
  \<open>read write\<close>; a client registered without a scope and with two redirect URIs; a provider
  that knows both; and a URL parser that accepts the strings starting with \<open>https://\<close>.
\<close>

definition example_client :: OAuthClientInformationFull where
  "example_client =
     \<lparr>redirect_uris = [''https://a.example/cb''], scope = Some ''read write'',
      client_id = ''c1'', client_secret = None\<rparr>"

definition example_client2 :: OAuthClientInformationFull where
  "example_client2 =
     \<lparr>redirect_uris = [''https://b.example/cb'', ''https://b.example/alt''], scope = None,
      client_id = ''c2'', client_secret = Some ''s3cret''\<rparr>"

definition example_env :: env where
  "example_env =
     \<lparr>get_client = (\<lambda>cid. if cid = ''c1'' then Some example_client
                          else if cid = ''c2'' then Some example_client2 else None),
      authorize = (\<lambda>c p. Inr ''https://as.example/consent''),
      AnyHttpUrl_validate = (\<lambda>s. if take 8 s = ''https://'' then Some s else None),
      stringify_pydantic_error = (\<lambda>errs. ''invalid request parameters'')\<rparr>"

text \<open>The same provider when its authorization decision raises.\<close>

definition failing_env :: env where
  "failing_env = example_env\<lparr>authorize := (\<lambda>c p. Inl (Exception ''provider down''))\<rparr>"

definition GET :: "params \<Rightarrow> Request" where
  "GET ps = \<lparr>http_method = ''GET'', query_params = ps, form = Inr Map.empty\<rparr>"

text \<open>
  A URL parser that normalises as pydantic does (lower-case scheme and host, default port
  dropped) on one spelling of the registered URI of \<open>example_client\<close>.
\<close>

definition normalising_env :: env where
  "normalising_env =
     example_env\<lparr>AnyHttpUrl_validate :=
       (\<lambda>s. if s = ''HTTPS://A.EXAMPLE:443/cb'' then Some ''https://a.example/cb''
            else AnyHttpUrl_validate example_env s)\<rparr>"

text \<open>
  A revocation endpoint over a store of tokens: the body is the token itself, the only
  client that authenticates presents the token \<open>t1\<close> or \<open>t2\<close>, and the hook removes the token.
  The second provider's hook raises when the store does not hold the token.
\<close>

definition example_revoke_env :: "(string, string list) revoke_env" where
  "example_revoke_env =
     \<lparr>model_validate_json = (\<lambda>b. if b = [] then Inl ''empty body'' else Inr b),
      client_authenticator =
        (\<lambda>r. if r = ''t1'' \<or> r = ''t2'' then Inr example_client
             else Inl (Exception ''invalid client credentials'')),
      revoke_token = Some (\<lambda>c r st. (None, removeAll r st))\<rparr>"

definition raising_revoke_env :: "(string, string list) revoke_env" where
  "raising_revoke_env =
     example_revoke_env\<lparr>revoke_token :=
       Some (\<lambda>c r st. if r \<in> set st then (None, removeAll r st)
                      else (Some (Exception ''unknown token''), st))\<rparr>"

section \<open>Properties\<close>

lemmas model_defs =
  authorization_handler_def handler_try_def request_params_def model_validate_def
  validate_str_def validate_opt_str_def validate_literal_def validate_opt_url_def errors_of_def
  error_response_def load_client_def load_redirect_uri_def load_state_def report_def
  best_effort_extract_string_def AnyHttpUrlModel_model_validate_def validate_redirect_uri_def
  validate_scope_def allowed_scopes_def model_dump_def

lemmas example_defs =
  GET_def example_env_def failing_env_def normalising_env_def example_client_def
  example_client2_def

subsection \<open>The validators\<close>

lemma split_sp_not_Nil: "split_sp s \<noteq> []"
  by (induction s) simp_all

lemma first_not_allowed_Nil:
  "requested \<noteq> [] \<Longrightarrow> first_not_allowed requested [] = Some (hd requested)"
  by (cases requested) simp_all

lemma first_not_allowed_None:
  "first_not_allowed xs ys = None \<longleftrightarrow> set xs \<subseteq> set ys"
  by (induction xs) auto

lemma first_not_allowed_Some:
  "first_not_allowed xs ys = Some t \<Longrightarrow> t \<in> set xs \<and> t \<notin> set ys"
  by (induction xs) (auto split: if_splits)

lemma validate_redirect_uri_Inl:
  "validate_redirect_uri raw c = Inl ex \<Longrightarrow> \<exists>msg. ex = InvalidRequestError msg"
  by (auto simp: validate_redirect_uri_def split: option.splits if_splits)

lemma validate_scope_Inl:
  "validate_scope rs c = Inl ex \<Longrightarrow> \<exists>msg. ex = InvalidRequestError msg"
  by (auto simp: validate_scope_def split: option.splits)

subsection \<open>The typed request model\<close>

lemma errors_of_Nil: "errors_of r = [] \<longleftrightarrow> (\<exists>x. r = Inr x)"
  by (cases r) (simp_all add: errors_of_def)

lemma model_validate_Inr:
  assumes "model_validate e ps = Inr ar"
  shows "ps ''client_id'' = Some (PStr (ar_client_id ar))"
    and "ar_state ar = best_effort_extract_string ''state'' (Some ps)"
    and "ar_scope ar = best_effort_extract_string ''scope'' (Some ps)"
    and "case ps ''redirect_uri'' of
           None \<Rightarrow> ar_redirect_uri ar = None
         | Some UploadFile \<Rightarrow> False
         | Some (PStr s) \<Rightarrow> AnyHttpUrl_validate e s = ar_redirect_uri ar \<and> ar_redirect_uri ar \<noteq> None"
    and "ps ''response_type'' = Some (PStr ''code'')"
    and "ps ''code_challenge'' = Some (PStr (ar_code_challenge ar))"
proof -
  let ?f1 = "validate_str ''client_id'' ps"
  let ?f2 = "validate_opt_url e ''redirect_uri'' ps"
  let ?f3 = "validate_literal ''response_type'' ''code'' None ps"
  let ?f4 = "validate_str ''code_challenge'' ps"
  let ?f6 = "validate_opt_str ''state'' ps"
  let ?f7 = "validate_opt_str ''scope'' ps"
  from assms have ok: "errors_of ?f1 = []" "errors_of ?f2 = []" "errors_of ?f3 = []"
      "errors_of ?f4 = []" "errors_of ?f6 = []" "errors_of ?f7 = []"
    and ar: "ar_client_id ar = projr ?f1" "ar_redirect_uri ar = projr ?f2"
      "ar_code_challenge ar = projr ?f4" "ar_state ar = projr ?f6" "ar_scope ar = projr ?f7"
    by (auto simp: model_validate_def Let_def split: if_splits)
  from ok(1) ar(1) show "ps ''client_id'' = Some (PStr (ar_client_id ar))"
    by (auto simp: errors_of_def validate_str_def split: option.splits pvalue.splits)
  from ok(5) ar(4) show "ar_state ar = best_effort_extract_string ''state'' (Some ps)"
    by (auto simp: errors_of_def validate_opt_str_def best_effort_extract_string_def
        split: option.splits pvalue.splits)
  from ok(6) ar(5) show "ar_scope ar = best_effort_extract_string ''scope'' (Some ps)"
    by (auto simp: errors_of_def validate_opt_str_def best_effort_extract_string_def
        split: option.splits pvalue.splits)
  from ok(2) ar(2) show "case ps ''redirect_uri'' of
           None \<Rightarrow> ar_redirect_uri ar = None
         | Some UploadFile \<Rightarrow> False
         | Some (PStr s) \<Rightarrow> AnyHttpUrl_validate e s = ar_redirect_uri ar \<and> ar_redirect_uri ar \<noteq> None"
    by (auto simp: errors_of_def validate_opt_url_def split: option.splits pvalue.splits)
  from ok(3) show "ps ''response_type'' = Some (PStr ''code'')"
    by (auto simp: errors_of_def validate_literal_def split: option.splits if_splits)
  from ok(4) ar(3) show "ps ''code_challenge'' = Some (PStr (ar_code_challenge ar))"
    by (auto simp: errors_of_def validate_str_def split: option.splits pvalue.splits)
qed



lemma verified_parsed:
  assumes "model_validate e ps = Inr ar" and "validate_redirect_uri (ar_redirect_uri ar) c = Inr u"
  shows "verified e (Some ps) c u"
  using model_validate_Inr(4) [OF assms(1)] assms(2)
  by (auto simp: verified_def split: option.splits pvalue.splits)

lemma resolved_parsed:
  assumes "model_validate e ps = Inr ar" and "get_client e (ar_client_id ar) = Some c"
  shows "resolved e (Some ps) c"
  using model_validate_Inr(1) [OF assms(1)] assms(2)
  by (simp add: resolved_def best_effort_extract_string_def)

lemma verified_member:
  assumes "verified e pso c u"
  shows "\<exists>ps. pso = Some ps \<and> u \<in> set (redirect_uris c)
           \<and> (ps ''redirect_uri'' = None \<and> redirect_uris c = [u]
                 \<and> validate_redirect_uri None c = Inr u
               \<or> (\<exists>s. ps ''redirect_uri'' = Some (PStr s) \<and> AnyHttpUrl_validate e s = Some u
                     \<and> validate_redirect_uri (Some u) c = Inr u))"
proof -
  from assms obtain ps where ps: "pso = Some ps" by (cases pso) (auto simp: verified_def)
  have sole: "redirect_uris c = [u]" if "validate_redirect_uri None c = Inr u"
  proof -
    from that have "length (redirect_uris c) = 1" "redirect_uris c ! 0 = u"
      by (auto simp: validate_redirect_uri_def split: if_splits)
    then show ?thesis by (cases "redirect_uris c") auto
  qed
  have given: "u' = u \<and> u \<in> set (redirect_uris c)" if "validate_redirect_uri (Some u') c = Inr u" for u'
    using that by (auto simp: validate_redirect_uri_def split: if_splits)
  show ?thesis
  proof (cases "ps ''redirect_uri''")
    case None
    with assms ps have "validate_redirect_uri None c = Inr u" by (simp add: verified_def)
    with sole None ps show ?thesis by auto
  next
    case (Some pv)
    with assms ps obtain s u' where "pv = PStr s" "AnyHttpUrl_validate e s = Some u'"
        "validate_redirect_uri (Some u') c = Inr u"
      by (auto simp: verified_def split: pvalue.splits option.splits)
    with given [of u'] Some ps show ?thesis by auto
  qed
qed

subsection \<open>The closure \<open>error_response\<close>\<close>

text \<open>Each step of the recovery keeps the invariant of the shared variables.\<close>

lemma vars_ok_load_client:
  assumes "vars_ok e req v"
  shows "vars_ok e req (load_client e a v)"
proof (cases "client v = PyNone \<and> a")
  case False
  then have "load_client e a v = v" by (auto simp: load_client_def)
  with assms show ?thesis by simp
next
  case True
  with assms have "redirect_uri v = None"
    by (cases "redirect_uri v") (auto simp: vars_ok_def)
  with True assms show ?thesis
    by (auto simp: load_client_def vars_ok_def resolved_def split: option.splits)
qed

lemma load_redirect_uri_Inr:
  assumes "load_redirect_uri e v = Inr v'"
  shows "v' = v \<or> (\<exists>c u. client v = Client c \<and> redirect_uri v = None
            \<and> verified e (params v) c u \<and> v' = v\<lparr>redirect_uri := Some u\<rparr>)"
proof (cases "client v")
  case (Client c)
  show ?thesis
  proof (cases "redirect_uri v")
    case (Some u)
    with Client assms show ?thesis by (simp add: load_redirect_uri_def)
  next
    case None
    show ?thesis
    proof (cases "params v")
      case pn: None
      with assms Client None show ?thesis
        by (simp add: load_redirect_uri_def AnyHttpUrlModel_model_validate_def
            best_effort_extract_string_def)
    next
      case (Some ps)
      show ?thesis
      proof (cases "ps ''redirect_uri''")
        case rn: None
        with assms Client None Some show ?thesis
          by (cases "validate_redirect_uri None c")
            (auto simp: load_redirect_uri_def verified_def)
      next
        case rs: (Some pv)
        show ?thesis
        proof (cases pv)
          case UploadFile
          with assms Client None Some rs show ?thesis
            by (simp add: load_redirect_uri_def AnyHttpUrlModel_model_validate_def
                best_effort_extract_string_def)
        next
          case (PStr s)
          show ?thesis
          proof (cases "AnyHttpUrl_validate e s")
            case un: None
            with assms Client None Some rs PStr show ?thesis
              by (simp add: load_redirect_uri_def AnyHttpUrlModel_model_validate_def
                  best_effort_extract_string_def)
          next
            case us: (Some u')
            with assms Client None Some rs PStr show ?thesis
              by (cases "validate_redirect_uri (Some u') c")
                (auto simp: load_redirect_uri_def AnyHttpUrlModel_model_validate_def
                  best_effort_extract_string_def verified_def)
          qed
        qed
      qed
    qed
  qed
qed (use assms in \<open>auto simp: load_redirect_uri_def\<close>)

lemma vars_ok_load_redirect_uri:
  assumes "vars_ok e req v" and "load_redirect_uri e v = Inr v'"
  shows "vars_ok e req v'"
  using load_redirect_uri_Inr [OF assms(2)] assms(1)
  by (auto simp: vars_ok_def)

lemma vars_ok_load_state:
  assumes "vars_ok e req v"
  shows "vars_ok e req (load_state v)"
    and "state (load_state v) = best_effort_extract_string ''state'' (params_of req)"
  using assms by (auto simp: load_state_def vars_ok_def)

lemma error_response_result:
  assumes "vars_ok e req v" and "error_response e err d a v = (r, v')"
  shows "vars_ok e req v'"
    and "r = Inr resp \<Longrightarrow> resp = report err d v' \<and> state v' = best_effort_extract_string ''state'' (params_of req)"
proof -
  let ?v1 = "load_client e a v"
  have v1: "vars_ok e req ?v1" using assms(1) by (rule vars_ok_load_client)
  show "vars_ok e req v'"
  proof (cases "load_redirect_uri e ?v1")
    case (Inl ex)
    with assms(2) v1 show ?thesis by (simp add: error_response_def)
  next
    case (Inr v2)
    with v1 have "vars_ok e req v2" by (rule vars_ok_load_redirect_uri)
    then have "vars_ok e req (load_state v2)" by (rule vars_ok_load_state)
    with assms(2) Inr show ?thesis by (auto simp: error_response_def Let_def)
  qed
  show "resp = report err d v' \<and> state v' = best_effort_extract_string ''state'' (params_of req)" if "r = Inr resp"
  proof (cases "load_redirect_uri e ?v1")
    case (Inl ex)
    with assms(2) that show ?thesis by (simp add: error_response_def)
  next
    case (Inr v2)
    with v1 have "vars_ok e req v2" by (rule vars_ok_load_redirect_uri)
    then have "state (load_state v2) = best_effort_extract_string ''state'' (params_of req)"
      by (rule vars_ok_load_state)
    with assms(2) Inr that show ?thesis by (auto simp: error_response_def Let_def)
  qed
qed


lemma load_redirect_uri_Inl:
  assumes "load_redirect_uri e v = Inl ex"
  shows "ex = ValidationError [([], url_error)] \<and> (\<exists>c. client v = Client c)
         \<and> AnyHttpUrlModel_model_validate e (best_effort_extract_string ''redirect_uri'' (params v)) = Inl ex
         \<and> (\<forall>ps. params v = Some ps \<longrightarrow> ps ''redirect_uri'' \<noteq> None)"
proof -
  from assms obtain c where c: "client v = Client c"
    by (cases "client v") (auto simp: load_redirect_uri_def)
  from assms c have n: "redirect_uri v = None"
    by (cases "redirect_uri v") (auto simp: load_redirect_uri_def)
  have k: "ex' = ValidationError [([], url_error)]" if "AnyHttpUrlModel_model_validate e x = Inl ex'" for x ex'
    using that by (auto simp: AnyHttpUrlModel_model_validate_def split: option.splits)
  from assms c n have "AnyHttpUrlModel_model_validate e (best_effort_extract_string ''redirect_uri'' (params v)) = Inl ex
      \<and> (\<forall>ps. params v = Some ps \<longrightarrow> ps ''redirect_uri'' \<noteq> None)"
    by (cases "AnyHttpUrlModel_model_validate e (best_effort_extract_string ''redirect_uri'' (params v))")
      (auto simp: load_redirect_uri_def split: if_splits sum.splits)
  with k c show ?thesis by blast
qed

lemma error_response_no_client:
  assumes "client v = PyNone"
  shows "error_response e err d False v = (Inr (report err d (load_state v)), load_state v)"
  using assms by (simp add: error_response_def load_client_def load_redirect_uri_def Let_def)

lemma load_redirect_uri_rejected:
  assumes "model_validate e ps = Inr ar" and "validate_redirect_uri (ar_redirect_uri ar) c = Inl ex"
    and "client v = Client c" and "params v = Some ps" and "redirect_uri v = None"
  shows "load_redirect_uri e v = Inr v"
proof (cases "ps ''redirect_uri''")
  case None
  with model_validate_Inr(4) [OF assms(1)] assms(2-) show ?thesis
    by (simp add: load_redirect_uri_def)
next
  case (Some pv)
  with model_validate_Inr(4) [OF assms(1)] obtain s u where "pv = PStr s"
      "AnyHttpUrl_validate e s = Some u" "ar_redirect_uri ar = Some u"
    by (cases pv) auto
  with Some assms(2-) show ?thesis
    by (simp add: load_redirect_uri_def best_effort_extract_string_def
        AnyHttpUrlModel_model_validate_def)
qed

lemma report_redirect:
  assumes "report err d v = RedirectResponse (construct_redirect_uri u q) sc hs"
  shows "redirect_uri v = Some u" and "\<exists>c. client v = Client c" and "sc = 302"
  using assms by (auto simp: report_def Let_def split: option.splits if_splits elim: truthy.elims)

lemma map_of_model_dump:
  "map_of (model_dump r) ''state'' = er_state r"
  "map_of (model_dump r) ''error'' = Some (ErrorCode_str (error r))"
  by (auto simp: model_dump_def split: option.splits)

lemma reported_report:
  "is_error_report (report err d v)"
  "reported_error (report err d v) = Some (ErrorCode_str err)"
  "reported_state (report err d v) = state v"
  by (auto simp: report_def Let_def map_of_model_dump split: option.splits)

subsection \<open>The handler\<close>

text \<open>
  Whatever the \<open>try\<close> block does, it leaves the shared variables within the invariant, and
  a response it returns is an error report built from them or the redirect of the success
  path. The same holds for the handler with its catch-all.
\<close>

lemma handler_try_result:
  assumes "handler_try e req \<lparr>state = None, redirect_uri = None, client = PyNone, params = None\<rparr> = (r, v)"
  shows "vars_ok e req v"
    and "r = Inr resp \<Longrightarrow>
           (\<exists>err d. resp = report err d v) \<and> state v = best_effort_extract_string ''state'' (params_of req)
           \<or> (\<exists>loc. resp = RedirectResponse (url_literal []) 302
                  [(''Cache-Control'', ''no-store''), (''location'', loc)])"
proof -
  let ?v0 = "\<lparr>state = None, redirect_uri = None, client = PyNone, params = None\<rparr>"
  let ?goal = "vars_ok e req v \<and> (r = Inr resp \<longrightarrow>
           (\<exists>err d. resp = report err d v) \<and> state v = best_effort_extract_string ''state'' (params_of req)
           \<or> (\<exists>loc. resp = RedirectResponse (url_literal []) 302
                  [(''Cache-Control'', ''no-store''), (''location'', loc)]))"
  have er: ?goal if "vars_ok e req w" "error_response e err d a w = (r, v)" for w err d a
    using error_response_result [OF that] by blast
  have ?goal
  proof (cases "request_params req")
    case (Inl ex)
    with assms show ?thesis
      by (auto simp: handler_try_def vars_ok_def params_of_def)
  next
    case (Inr ps)
    let ?v2 = "?v0\<lparr>params := Some ps, state := best_effort_extract_string ''state'' (Some ps)\<rparr>"
    have p: "params_of req = Some ps" using Inr by (simp add: params_of_def)
    have v2: "vars_ok e req ?v2" using p by (simp add: vars_ok_def)
    show ?thesis
    proof (cases "model_validate e ps")
      case (Inl errs)
      with assms Inr have "error_response e (classify errs) (stringify_pydantic_error e errs) True ?v2 = (r, v)"
        by (simp add: handler_try_def)
      with v2 show ?thesis by (rule er)
    next
      case ar: (Inr ar)
      let ?v3 = "?v2\<lparr>state := ar_state ar\<rparr>"
      have v3: "vars_ok e req (?v3\<lparr>client := PyNone\<rparr>)"
        using p model_validate_Inr(2) [OF ar] by (simp add: vars_ok_def)
      show ?thesis
      proof (cases "get_client e (ar_client_id ar)")
        case None
        with assms Inr ar have "error_response e invalid_request
            (''Client ID '' @ [CHR 0x27] @ ar_client_id ar @ [CHR 0x27] @ '' not found'') False
            (?v3\<lparr>client := PyNone\<rparr>) = (r, v)"
          by (simp add: handler_try_def)
        with v3 show ?thesis by (rule er)
      next
        case (Some c)
        let ?v4 = "?v3\<lparr>client := Client c\<rparr>"
        have v4: "vars_ok e req ?v4"
          using p model_validate_Inr(2) [OF ar] resolved_parsed [OF ar Some]
          by (simp add: vars_ok_def)
        show ?thesis
        proof (cases "validate_redirect_uri (ar_redirect_uri ar) c")
          case (Inl ex)
          show ?thesis
          proof -
            from validate_redirect_uri_Inl [OF Inl] obtain msg where "ex = InvalidRequestError msg" ..
            with assms Inr ar Some Inl have "error_response e invalid_request msg True ?v4 = (r, v)"
              by (simp add: handler_try_def)
            with v4 show ?thesis by (rule er)
          qed
        next
          case u: (Inr u)
          let ?v5 = "?v4\<lparr>redirect_uri := Some u\<rparr>"
          have v5: "vars_ok e req ?v5"
            using p model_validate_Inr(2) [OF ar] resolved_parsed [OF ar Some]
              verified_parsed [OF ar u]
            by (simp add: vars_ok_def)
          show ?thesis
          proof (cases "validate_scope (ar_scope ar) c")
            case (Inl ex)
            show ?thesis
            proof -
              from validate_scope_Inl [OF Inl] obtain msg where "ex = InvalidRequestError msg" ..
              with assms Inr ar Some u Inl have "error_response e invalid_scope msg True ?v5 = (r, v)"
                by (simp add: handler_try_def)
              with v5 show ?thesis by (rule er)
            qed
          next
            case sc: (Inr scopes)
            with assms Inr ar Some u v5 show ?thesis
              by (auto simp: handler_try_def Let_def split: sum.splits)
          qed
        qed
      qed
    qed
  qed
  then show "vars_ok e req v"
    and "r = Inr resp \<Longrightarrow>
           (\<exists>err d. resp = report err d v) \<and> state v = best_effort_extract_string ''state'' (params_of req)
           \<or> (\<exists>loc. resp = RedirectResponse (url_literal []) 302
                  [(''Cache-Control'', ''no-store''), (''location'', loc)])"
    by blast+
qed

lemma authorization_handler_result:
  assumes "authorization_handler e req = Inr resp"
  shows "(\<exists>v err d. vars_ok e req v \<and> resp = report err d v
            \<and> state v = best_effort_extract_string ''state'' (params_of req))
         \<or> (\<exists>loc. resp = RedirectResponse (url_literal []) 302
                  [(''Cache-Control'', ''no-store''), (''location'', loc)])"
proof -
  let ?v0 = "\<lparr>state = None, redirect_uri = None, client = PyNone, params = None\<rparr>"
  obtain r v where t: "handler_try e req ?v0 = (r, v)" by (cases "handler_try e req ?v0")
  note ok = handler_try_result(1) [OF t]
  show ?thesis
  proof (cases r)
    case (Inr resp')
    with t assms have "resp' = resp" by (simp add: authorization_handler_def)
    with handler_try_result(2) [OF t, of resp] Inr ok show ?thesis by blast
  next
    case (Inl ex)
    obtain r' v' where e2: "error_response e server_error ''An unexpected error occurred'' True v = (r', v')"
      by (cases "error_response e server_error ''An unexpected error occurred'' True v")
    with t Inl assms have "r' = Inr resp" by (simp add: authorization_handler_def)
    with error_response_result [OF ok e2] show ?thesis by blast
  qed
qed


text \<open>
  The handler lets an exception through only in one situation: the client of the raw
  \<open>client_id\<close> is registered and the raw \<open>redirect_uri\<close> is present but is no URL. In
  particular it returns a response whenever \<open>redirect_uri\<close> is absent or a well-formed URL.
\<close>

lemma authorization_handler_raises_only_if:
  assumes "authorization_handler e req = Inl ex"
  shows "ex = ValidationError [([], url_error)]
         \<and> (\<exists>ps cid c. request_params req = Inr ps \<and> ps ''client_id'' = Some (PStr cid)
                \<and> get_client e cid = Some c
                \<and> (ps ''redirect_uri'' = Some UploadFile
                    \<or> (\<exists>s. ps ''redirect_uri'' = Some (PStr s) \<and> AnyHttpUrl_validate e s = None)))"
proof -
  let ?v0 = "\<lparr>state = None, redirect_uri = None, client = PyNone, params = None\<rparr>"
  obtain r v where t: "handler_try e req ?v0 = (r, v)" by (cases "handler_try e req ?v0")
  note ok = handler_try_result(1) [OF t]
  obtain r' v' where e2: "error_response e server_error ''An unexpected error occurred'' True v = (r', v')"
    by (cases "error_response e server_error ''An unexpected error occurred'' True v")
  from t assms e2 have r': "r' = Inl ex"
    by (cases r) (auto simp: authorization_handler_def)
  let ?v1 = "load_client e True v"
  from e2 r' have l: "load_redirect_uri e ?v1 = Inl ex"
    by (auto simp: error_response_def Let_def split: sum.splits)
  have ok1: "vars_ok e req ?v1" using ok by (rule vars_ok_load_client)
  from load_redirect_uri_Inl [OF l] obtain c where
    ex: "ex = ValidationError [([], url_error)]" and c: "client ?v1 = Client c"
    and m: "AnyHttpUrlModel_model_validate e (best_effort_extract_string ''redirect_uri'' (params ?v1)) = Inl ex"
    and pr: "\<forall>ps. params ?v1 = Some ps \<longrightarrow> ps ''redirect_uri'' \<noteq> None"
    by blast
  from ok1 c have res: "resolved e (params_of req) c" and p: "params ?v1 = params_of req"
    by (auto simp: vars_ok_def)
  from res obtain ps cid where ps: "params_of req = Some ps"
    and cid: "ps ''client_id'' = Some (PStr cid)" "get_client e cid = Some c"
    by (auto simp: resolved_def best_effort_extract_string_def split: option.splits pvalue.splits)
  from ps have rp: "request_params req = Inr ps"
    by (auto simp: params_of_def split: sum.splits)
  from pr p ps obtain pv where pv: "ps ''redirect_uri'' = Some pv" by auto
  have "ps ''redirect_uri'' = Some UploadFile
                    \<or> (\<exists>s. ps ''redirect_uri'' = Some (PStr s) \<and> AnyHttpUrl_validate e s = None)"
  proof (cases pv)
    case UploadFile
    with pv show ?thesis by simp
  next
    case (PStr s)
    with m p ps pv have "AnyHttpUrl_validate e s = None"
      by (auto simp: AnyHttpUrlModel_model_validate_def best_effort_extract_string_def split: option.splits)
    with pv PStr show ?thesis by simp
  qed
  with ex rp cid show ?thesis by blast
qed

lemma authorization_handler_returns:
  assumes "request_params req = Inl ex \<or> (\<exists>ps. request_params req = Inr ps \<and>
             (ps ''redirect_uri'' = None
              \<or> (\<exists>s u. ps ''redirect_uri'' = Some (PStr s) \<and> AnyHttpUrl_validate e s = Some u)))"
  shows "\<exists>resp. authorization_handler e req = Inr resp"
proof (cases "authorization_handler e req")
  case (Inl ex')
  from authorization_handler_raises_only_if [OF Inl] assms show ?thesis by auto
next
  case (Inr resp)
  then show ?thesis by blast
qed

subsection \<open>Error redirects go to verified URIs only\<close>

text \<open>
  Claim C1. Whenever the handler answers with an error redirect, that is a
  \<open>RedirectResponse\<close> whose URL is built by \<open>construct_redirect_uri\<close> from a base URI \<open>u\<close>, the
  request's raw \<open>client_id\<close> names a registered client, \<open>u\<close> is one of that client's registered
  redirect URIs, and \<open>u\<close> is the result of \<open>validate_redirect_uri\<close> for that client: either the
  request has no \<open>redirect_uri\<close> and \<open>u\<close> is the sole registered URI, or the request's
  \<open>redirect_uri\<close> parses to \<open>u\<close> and \<open>u\<close> is registered.
\<close>

theorem C1_error_redirect_target_verified:
  assumes "authorization_handler e req = Inr (RedirectResponse (construct_redirect_uri u q) sc hs)"
  shows "\<exists>ps cid c. request_params req = Inr ps \<and> ps ''client_id'' = Some (PStr cid)
           \<and> get_client e cid = Some c \<and> u \<in> set (redirect_uris c)
           \<and> (ps ''redirect_uri'' = None \<and> redirect_uris c = [u]
                 \<and> validate_redirect_uri None c = Inr u
               \<or> (\<exists>s. ps ''redirect_uri'' = Some (PStr s) \<and> AnyHttpUrl_validate e s = Some u
                     \<and> validate_redirect_uri (Some u) c = Inr u))"
proof -
  from authorization_handler_result [OF assms] obtain v err d
    where ok: "vars_ok e req v"
      and r: "report err d v = RedirectResponse (construct_redirect_uri u q) sc hs"
    by auto
  from report_redirect(1,2) [OF r] obtain c where u: "redirect_uri v = Some u" and c: "client v = Client c"
    by auto
  from ok u c have res: "resolved e (params_of req) c" and ver: "verified e (params_of req) c u"
    by (auto simp: vars_ok_def)
  from verified_member [OF ver] obtain ps where ps: "params_of req = Some ps"
    and m: "u \<in> set (redirect_uris c)"
    and how: "ps ''redirect_uri'' = None \<and> redirect_uris c = [u]
                 \<and> validate_redirect_uri None c = Inr u
               \<or> (\<exists>s. ps ''redirect_uri'' = Some (PStr s) \<and> AnyHttpUrl_validate e s = Some u
                     \<and> validate_redirect_uri (Some u) c = Inr u)"
    by blast
  from ps have rp: "request_params req = Inr ps"
    by (auto simp: params_of_def split: sum.splits)
  from res ps obtain cid where "ps ''client_id'' = Some (PStr cid)" "get_client e cid = Some c"
    by (auto simp: resolved_def best_effort_extract_string_def split: option.splits pvalue.splits)
  with rp m how show ?thesis by blast
qed

theorem C1_error_redirect_target_verified_witness:
  "authorization_handler failing_env
     (GET [''client_id'' \<mapsto> PStr ''c1'', ''response_type'' \<mapsto> PStr ''code'',
           ''code_challenge'' \<mapsto> PStr ''xyz'',
           ''redirect_uri'' \<mapsto> PStr ''https://a.example/cb''])
     = Inr (RedirectResponse
              (construct_redirect_uri ''https://a.example/cb''
                 [(''error'', ''server_error''),
                  (''error_description'', ''An unexpected error occurred'')])
              302 [(''Cache-Control'', ''no-store'')])
   \<and> (\<exists>ps cid c.
          request_params
            (GET [''client_id'' \<mapsto> PStr ''c1'', ''response_type'' \<mapsto> PStr ''code'',
                  ''code_challenge'' \<mapsto> PStr ''xyz'',
                  ''redirect_uri'' \<mapsto> PStr ''https://a.example/cb'']) = Inr ps
          \<and> ps ''client_id'' = Some (PStr cid) \<and> get_client failing_env cid = Some c
          \<and> ''https://a.example/cb'' \<in> set (redirect_uris c)
          \<and> (ps ''redirect_uri'' = None \<and> redirect_uris c = [''https://a.example/cb'']
                \<and> validate_redirect_uri None c = Inr ''https://a.example/cb''
              \<or> (\<exists>s. ps ''redirect_uri'' = Some (PStr s)
                    \<and> AnyHttpUrl_validate failing_env s = Some ''https://a.example/cb''
                    \<and> validate_redirect_uri (Some ''https://a.example/cb'') c
                        = Inr ''https://a.example/cb'')))"
proof -
  have h: "authorization_handler failing_env
     (GET [''client_id'' \<mapsto> PStr ''c1'', ''response_type'' \<mapsto> PStr ''code'',
           ''code_challenge'' \<mapsto> PStr ''xyz'',
           ''redirect_uri'' \<mapsto> PStr ''https://a.example/cb''])
     = Inr (RedirectResponse
              (construct_redirect_uri ''https://a.example/cb''
                 [(''error'', ''server_error''),
                  (''error_description'', ''An unexpected error occurred'')])
              302 [(''Cache-Control'', ''no-store'')])"
    by (simp add: model_defs example_defs failing_env_def)
  from h C1_error_redirect_target_verified [OF h] show ?thesis by (rule conjI)
qed

subsection \<open>The choice of the reporting channel\<close>

text \<open>
  Claim C2. Every response that \<open>error_response\<close> returns is determined by the shared
  variables as they are after the recovery: if a redirect URI is held and the client is
  resolved, it is the 302 redirect to that URI with the fields of the error report (error,
  description, and the state when there is one) as parameters; in every other case, and only
  then, it is the JSON response with status 400 carrying the report. Both have the header
  \<open>Cache-Control: no-store\<close>.
\<close>

theorem C2_report_channel:
  assumes "error_response e err d a v = (Inr resp, v')"
  shows "resp =
           (if redirect_uri v' \<noteq> None \<and> truthy (client v')
            then RedirectResponse
                   (construct_redirect_uri (the (redirect_uri v'))
                      ([(''error'', ErrorCode_str err), (''error_description'', d)]
                       @ (case state v' of None \<Rightarrow> [] | Some s \<Rightarrow> [(''state'', s)])))
                   302 [(''Cache-Control'', ''no-store'')]
            else PydanticJSONResponse 400
                   \<lparr>error = err, error_description = d, error_uri = None, er_state = state v'\<rparr>
                   [(''Cache-Control'', ''no-store'')])
       \<and> ((\<exists>u q. resp = RedirectResponse (construct_redirect_uri u q) 302
                      [(''Cache-Control'', ''no-store'')])
            \<longleftrightarrow> redirect_uri v' \<noteq> None \<and> truthy (client v'))
       \<and> map_of (headers resp) ''Cache-Control'' = Some ''no-store''"
proof -
  from assms have "resp = report err d v'"
    by (auto simp: error_response_def Let_def split: sum.splits)
  then show ?thesis
    by (cases "redirect_uri v'"; cases "state v'"; cases "truthy (client v')")
      (simp_all add: report_def model_dump_def Let_def)
qed

theorem C2_report_channel_witness:
  "error_response example_env invalid_request ''bad request'' True
     \<lparr>state = None, redirect_uri = None, client = PyNone,
      params = Some [''client_id'' \<mapsto> PStr ''c1'', ''state'' \<mapsto> PStr ''s1'']\<rparr>
   = (Inr (RedirectResponse
             (construct_redirect_uri ''https://a.example/cb''
                [(''error'', ''invalid_request''), (''error_description'', ''bad request''),
                 (''state'', ''s1'')])
             302 [(''Cache-Control'', ''no-store'')]),
      \<lparr>state = Some ''s1'', redirect_uri = Some ''https://a.example/cb'',
       client = Client example_client,
       params = Some [''client_id'' \<mapsto> PStr ''c1'', ''state'' \<mapsto> PStr ''s1'']\<rparr>)
   \<and> error_response example_env invalid_request ''bad request'' True
       \<lparr>state = None, redirect_uri = None, client = PyNone,
        params = Some [''client_id'' \<mapsto> PStr ''c2'', ''state'' \<mapsto> PStr ''s1'']\<rparr>
     = (Inr (PydanticJSONResponse 400
               \<lparr>error = invalid_request, error_description = ''bad request'', error_uri = None,
                er_state = Some ''s1''\<rparr>
               [(''Cache-Control'', ''no-store'')]),
        \<lparr>state = Some ''s1'', redirect_uri = None, client = Client example_client2,
         params = Some [''client_id'' \<mapsto> PStr ''c2'', ''state'' \<mapsto> PStr ''s1'']\<rparr>)"
proof -
  let ?v = "\<lparr>state = None, redirect_uri = None, client = PyNone,
      params = Some [''client_id'' \<mapsto> PStr ''c1'', ''state'' \<mapsto> PStr ''s1'']\<rparr>"
  let ?v' = "\<lparr>state = Some ''s1'', redirect_uri = Some ''https://a.example/cb'',
       client = Client example_client,
       params = Some [''client_id'' \<mapsto> PStr ''c1'', ''state'' \<mapsto> PStr ''s1'']\<rparr>"
  let ?w = "\<lparr>state = None, redirect_uri = None, client = PyNone,
        params = Some [''client_id'' \<mapsto> PStr ''c2'', ''state'' \<mapsto> PStr ''s1'']\<rparr>"
  let ?w' = "\<lparr>state = Some ''s1'', redirect_uri = None, client = Client example_client2,
         params = Some [''client_id'' \<mapsto> PStr ''c2'', ''state'' \<mapsto> PStr ''s1'']\<rparr>"
  obtain r where r: "error_response example_env invalid_request ''bad request'' True ?v = (Inr r, ?v')"
    by (simp add: model_defs example_defs Let_def)
  obtain s where s: "error_response example_env invalid_request ''bad request'' True ?w = (Inr s, ?w')"
    by (simp add: model_defs example_defs Let_def)
  from C2_report_channel [OF r] C2_report_channel [OF s] r s show ?thesis by simp
qed

subsection \<open>Totality of the handler\<close>

text \<open>
  Claim C3 says that the handler returns a response for every request and that a failure of
  the redirect-URI recovery is swallowed. The code does not do so: for a request of a
  registered client whose \<open>redirect_uri\<close> is not a URL, parsing fails, \<open>error_response\<close> loads
  the client and parses the raw \<open>redirect_uri\<close> before its \<open>try\<close>, which raises
  \<open>ValidationError\<close>; the catch-all calls \<open>error_response\<close> once more, which raises in the
  same way, and this exception leaves the handler.
\<close>

theorem C3_handler_raises:
  "authorization_handler example_env
     (GET [''client_id'' \<mapsto> PStr ''c1'', ''response_type'' \<mapsto> PStr ''code'',
           ''code_challenge'' \<mapsto> PStr ''xyz'', ''redirect_uri'' \<mapsto> PStr ''not a url''])
   = Inl (ValidationError [([], url_error)])"
  by (simp add: model_defs example_defs)

subsection \<open>Unknown client\<close>

text \<open>
  Claim C4. When the parameters parse and the client store has no client for the parsed
  \<open>client_id\<close>, the handler returns the JSON response with status 400 and the error code
  \<open>invalid_request\<close>, whatever the other parameters are; the state reported is the request's.
\<close>

theorem C4_unknown_client_direct_response:
  assumes "request_params req = Inr ps" and "model_validate e ps = Inr ar"
    and "get_client e (ar_client_id ar) = None"
  shows "authorization_handler e req =
           Inr (PydanticJSONResponse 400
                  \<lparr>error = invalid_request,
                   error_description =
                     ''Client ID '' @ [CHR 0x27] @ ar_client_id ar @ [CHR 0x27] @ '' not found'',
                   error_uri = None,
                   er_state = best_effort_extract_string ''state'' (Some ps)\<rparr>
                  [(''Cache-Control'', ''no-store'')])"
  using assms model_validate_Inr(2) [OF assms(2)]
  by (simp add: authorization_handler_def handler_try_def error_response_no_client
      load_state_def report_def Let_def)

theorem C4_unknown_client_direct_response_witness:
  "authorization_handler example_env
     (GET [''client_id'' \<mapsto> PStr ''c9'', ''response_type'' \<mapsto> PStr ''code'',
           ''code_challenge'' \<mapsto> PStr ''xyz'', ''state'' \<mapsto> PStr ''s1'',
           ''redirect_uri'' \<mapsto> PStr ''https://a.example/cb''])
   = Inr (PydanticJSONResponse 400
            \<lparr>error = invalid_request,
             error_description = ''Client ID '' @ [CHR 0x27] @ ''c9'' @ [CHR 0x27] @ '' not found'',
             error_uri = None, er_state = Some ''s1''\<rparr>
            [(''Cache-Control'', ''no-store'')])"
proof -
  let ?ps = "[''client_id'' \<mapsto> PStr ''c9'', ''response_type'' \<mapsto> PStr ''code'',
           ''code_challenge'' \<mapsto> PStr ''xyz'', ''state'' \<mapsto> PStr ''s1'',
           ''redirect_uri'' \<mapsto> PStr ''https://a.example/cb'']"
  let ?ar = "\<lparr>ar_client_id = ''c9'', ar_redirect_uri = Some ''https://a.example/cb'',
              ar_response_type = ''code'', ar_code_challenge = ''xyz'',
              ar_code_challenge_method = ''S256'', ar_state = Some ''s1'', ar_scope = None\<rparr>"
  have p: "request_params (GET ?ps) = Inr ?ps" by (simp add: request_params_def GET_def)
  have m: "model_validate example_env ?ps = Inr ?ar" by (simp add: model_defs example_defs)
  have g: "get_client example_env (ar_client_id ?ar) = None" by (simp add: example_defs)
  from C4_unknown_client_direct_response [OF p m g] show ?thesis
    by (simp add: best_effort_extract_string_def)
qed

subsection \<open>The error code of a parse failure\<close>




subsection \<open>Failure of the redirect-URI resolution\<close>

text \<open>
  Claim C6 says that a supplied \<open>redirect_uri\<close> that is not byte for byte one of the client's
  registered URIs is answered with the 400 response. The handler compares the parsed URL,
  not the supplied string: the request below supplies a spelling that is not in the
  registered set, its parsed URL is, and the handler goes on to the provider's redirect.
\<close>

theorem C6_supplied_spelling_counterexample:
  "''HTTPS://A.EXAMPLE:443/cb'' \<notin> set (redirect_uris example_client)
   \<and> get_client normalising_env ''c1'' = Some example_client
   \<and> authorization_handler normalising_env
       (GET [''client_id'' \<mapsto> PStr ''c1'', ''response_type'' \<mapsto> PStr ''code'',
             ''code_challenge'' \<mapsto> PStr ''xyz'',
             ''redirect_uri'' \<mapsto> PStr ''HTTPS://A.EXAMPLE:443/cb''])
     = Inr (RedirectResponse (url_literal []) 302
              [(''Cache-Control'', ''no-store''), (''location'', ''https://as.example/consent'')])"
  by (simp add: model_defs example_defs)

text \<open>
  Claim C6, amended. When the parameters parse, the client is found, and the URL that the
  supplied \<open>redirect_uri\<close> parses to is not among the client's registered URIs, or
  \<open>redirect_uri\<close> is absent while the client does not have exactly one registered URI, then
  \<open>validate_redirect_uri\<close> raises \<open>InvalidRequestError\<close> and the handler returns the JSON
  response with status 400, the error code \<open>invalid_request\<close> and the message of that
  exception.
\<close>

theorem C6_redirect_uri_failure_direct_response:
  assumes "request_params req = Inr ps" and "model_validate e ps = Inr ar"
    and "get_client e (ar_client_id ar) = Some c"
    and "(\<exists>s u. ps ''redirect_uri'' = Some (PStr s) \<and> AnyHttpUrl_validate e s = Some u
            \<and> u \<notin> set (redirect_uris c))
         \<or> ps ''redirect_uri'' = None \<and> length (redirect_uris c) \<noteq> 1"
  shows "\<exists>msg. validate_redirect_uri (ar_redirect_uri ar) c = Inl (InvalidRequestError msg)
           \<and> authorization_handler e req =
               Inr (PydanticJSONResponse 400
                      \<lparr>error = invalid_request, error_description = msg, error_uri = None,
                       er_state = best_effort_extract_string ''state'' (Some ps)\<rparr>
                      [(''Cache-Control'', ''no-store'')])"
proof -
  from assms(4) model_validate_Inr(4) [OF assms(2)]
  have "(\<exists>u. ar_redirect_uri ar = Some u \<and> u \<notin> set (redirect_uris c))
         \<or> ar_redirect_uri ar = None \<and> length (redirect_uris c) \<noteq> 1"
    by auto
  then obtain msg where
    msg: "validate_redirect_uri (ar_redirect_uri ar) c = Inl (InvalidRequestError msg)"
    by (auto simp: validate_redirect_uri_def)
  let ?v4 = "\<lparr>state = ar_state ar, redirect_uri = None, client = Client c, params = Some ps\<rparr>"
  have "load_redirect_uri e ?v4 = Inr ?v4"
    by (rule load_redirect_uri_rejected [OF assms(2) msg]) simp_all
  then have "error_response e invalid_request msg True ?v4
      = (Inr (report invalid_request msg (load_state ?v4)), load_state ?v4)"
    by (simp add: error_response_def load_client_def Let_def)
  with assms(1-3) msg model_validate_Inr(2) [OF assms(2)]
  have "authorization_handler e req =
               Inr (PydanticJSONResponse 400
                      \<lparr>error = invalid_request, error_description = msg, error_uri = None,
                       er_state = best_effort_extract_string ''state'' (Some ps)\<rparr>
                      [(''Cache-Control'', ''no-store'')])"
    by (simp add: authorization_handler_def handler_try_def load_state_def report_def Let_def)
  with msg show ?thesis by blast
qed

theorem C6_redirect_uri_failure_direct_response_witness:
  "authorization_handler example_env
     (GET [''client_id'' \<mapsto> PStr ''c2'', ''response_type'' \<mapsto> PStr ''code'',
           ''code_challenge'' \<mapsto> PStr ''xyz'', ''state'' \<mapsto> PStr ''s1''])
   = Inr (PydanticJSONResponse 400
            \<lparr>error = invalid_request,
             error_description =
               ''redirect_uri must be specified when client has multiple registered URIs'',
             error_uri = None, er_state = Some ''s1''\<rparr>
            [(''Cache-Control'', ''no-store'')])
   \<and> authorization_handler normalising_env
       (GET [''client_id'' \<mapsto> PStr ''c1'', ''response_type'' \<mapsto> PStr ''code'',
             ''code_challenge'' \<mapsto> PStr ''xyz'',
             ''redirect_uri'' \<mapsto> PStr ''https://evil.example/cb''])
     = Inr (PydanticJSONResponse 400
              \<lparr>error = invalid_request,
               error_description =
                 ''Redirect URI '' @ [CHR 0x27] @ ''https://evil.example/cb'' @ [CHR 0x27]
                   @ '' not registered for client'',
               error_uri = None, er_state = None\<rparr>
              [(''Cache-Control'', ''no-store'')])"
proof -
  let ?ps = "[''client_id'' \<mapsto> PStr ''c2'', ''response_type'' \<mapsto> PStr ''code'',
           ''code_challenge'' \<mapsto> PStr ''xyz'', ''state'' \<mapsto> PStr ''s1'']"
  let ?ar = "\<lparr>ar_client_id = ''c2'', ar_redirect_uri = None,
              ar_response_type = ''code'', ar_code_challenge = ''xyz'',
              ar_code_challenge_method = ''S256'', ar_state = Some ''s1'', ar_scope = None\<rparr>"
  have p: "request_params (GET ?ps) = Inr ?ps" by (simp add: request_params_def GET_def)
  have m: "model_validate example_env ?ps = Inr ?ar" by (simp add: model_defs example_defs)
  have g: "get_client example_env (ar_client_id ?ar) = Some example_client2"
    by (simp add: example_defs)
  have r: "(\<exists>s u. ?ps ''redirect_uri'' = Some (PStr s) \<and> AnyHttpUrl_validate example_env s = Some u
            \<and> u \<notin> set (redirect_uris example_client2))
         \<or> ?ps ''redirect_uri'' = None \<and> length (redirect_uris example_client2) \<noteq> 1"
    by (simp add: example_defs)
  let ?qs = "[''client_id'' \<mapsto> PStr ''c1'', ''response_type'' \<mapsto> PStr ''code'',
             ''code_challenge'' \<mapsto> PStr ''xyz'',
             ''redirect_uri'' \<mapsto> PStr ''https://evil.example/cb'']"
  let ?br = "\<lparr>ar_client_id = ''c1'', ar_redirect_uri = Some ''https://evil.example/cb'',
              ar_response_type = ''code'', ar_code_challenge = ''xyz'',
              ar_code_challenge_method = ''S256'', ar_state = None, ar_scope = None\<rparr>"
  have p': "request_params (GET ?qs) = Inr ?qs" by (simp add: request_params_def GET_def)
  have m': "model_validate normalising_env ?qs = Inr ?br" by (simp add: model_defs example_defs)
  have g': "get_client normalising_env (ar_client_id ?br) = Some example_client"
    by (simp add: example_defs)
  have u': "AnyHttpUrl_validate normalising_env ''https://evil.example/cb''
      = Some ''https://evil.example/cb''"
    by (simp add: example_defs)
  have n': "''https://evil.example/cb'' \<notin> set (redirect_uris example_client)"
    by (simp add: example_defs)
  have r': "(\<exists>s u. ?qs ''redirect_uri'' = Some (PStr s) \<and> AnyHttpUrl_validate normalising_env s = Some u
            \<and> u \<notin> set (redirect_uris example_client))
         \<or> ?qs ''redirect_uri'' = None \<and> length (redirect_uris example_client) \<noteq> 1"
    using u' n' by simp
  from C6_redirect_uri_failure_direct_response [OF p m g r]
  have first: "authorization_handler example_env (GET ?ps)
      = Inr (PydanticJSONResponse 400
            \<lparr>error = invalid_request,
             error_description =
               ''redirect_uri must be specified when client has multiple registered URIs'',
             error_uri = None, er_state = Some ''s1''\<rparr>
            [(''Cache-Control'', ''no-store'')])"
    by (simp add: best_effort_extract_string_def validate_redirect_uri_def example_defs)
  from C6_redirect_uri_failure_direct_response [OF p' m' g' r']
  have "authorization_handler normalising_env (GET ?qs)
     = Inr (PydanticJSONResponse 400
              \<lparr>error = invalid_request,
               error_description =
                 ''Redirect URI '' @ [CHR 0x27] @ ''https://evil.example/cb'' @ [CHR 0x27]
                   @ '' not registered for client'',
               error_uri = None, er_state = None\<rparr>
              [(''Cache-Control'', ''no-store'')])"
    by (simp add: best_effort_extract_string_def validate_redirect_uri_def example_defs)
  with first show ?thesis by (rule conjI)
qed

subsection \<open>The state is echoed\<close>

text \<open>
  Claim C7. Every error report that the handler returns, on whichever path, carries as its
  state exactly the raw \<open>state\<close> string of the request: the same string when the request has
  one, and no state when it has none.
\<close>

theorem C7_state_echoed:
  assumes "authorization_handler e req = Inr resp" and "is_error_report resp"
  shows "reported_state resp = best_effort_extract_string ''state'' (params_of req)"
  using authorization_handler_result [OF assms(1)] assms(2)
  by (auto simp: reported_report)

theorem C7_state_echoed_witness:
  "authorization_handler example_env
     (GET [''client_id'' \<mapsto> PStr ''c1'', ''state'' \<mapsto> PStr ''s1''])
   = Inr (RedirectResponse
            (construct_redirect_uri ''https://a.example/cb''
               [(''error'', ''invalid_request''),
                (''error_description'', ''invalid request parameters''), (''state'', ''s1'')])
            302 [(''Cache-Control'', ''no-store'')])
   \<and> reported_state
       (RedirectResponse
            (construct_redirect_uri ''https://a.example/cb''
               [(''error'', ''invalid_request''),
                (''error_description'', ''invalid request parameters''), (''state'', ''s1'')])
            302 [(''Cache-Control'', ''no-store'')])
     = best_effort_extract_string ''state''
         (params_of (GET [''client_id'' \<mapsto> PStr ''c1'', ''state'' \<mapsto> PStr ''s1'']))
   \<and> best_effort_extract_string ''state''
         (params_of (GET [''client_id'' \<mapsto> PStr ''c1'', ''state'' \<mapsto> PStr ''s1'']))
     = Some ''s1''"
proof -
  let ?req = "GET [''client_id'' \<mapsto> PStr ''c1'', ''state'' \<mapsto> PStr ''s1'']"
  let ?resp = "RedirectResponse
            (construct_redirect_uri ''https://a.example/cb''
               [(''error'', ''invalid_request''),
                (''error_description'', ''invalid request parameters''), (''state'', ''s1'')])
            302 [(''Cache-Control'', ''no-store'')]"
  have h: "authorization_handler example_env ?req = Inr ?resp"
    by (simp add: model_defs example_defs)
  have i: "is_error_report ?resp" by simp
  have s: "best_effort_extract_string ''state'' (params_of ?req) = Some ''s1''"
    by (simp add: params_of_def request_params_def GET_def best_effort_extract_string_def)
  from h C7_state_echoed [OF h i] s show ?thesis by blast
qed

subsection \<open>Scope errors after the implicit redirect URI\<close>

text \<open>
  Claim C8. When the request has no \<open>redirect_uri\<close> and the client has exactly one
  registered URI \<open>u\<close>, \<open>validate_redirect_uri\<close> selects \<open>u\<close>; if moreover the requested scope
  has a token outside the client's allowed scopes, the handler returns the 302 redirect to
  \<open>u\<close> with the error code \<open>invalid_scope\<close>, the message naming the first such token, and the
  request's state.
\<close>

theorem C8_sole_redirect_uri_scope_error:
  assumes "request_params req = Inr ps" and "model_validate e ps = Inr ar"
    and "ar_redirect_uri ar = None"
    and "get_client e (ar_client_id ar) = Some c" and "redirect_uris c = [u]"
    and "ar_scope ar = Some rs" and "t \<in> set (split_sp rs)" and "t \<notin> set (allowed_scopes c)"
  shows "validate_redirect_uri (ar_redirect_uri ar) c = Inr u
       \<and> (\<exists>t'. first_not_allowed (split_sp rs) (allowed_scopes c) = Some t'
           \<and> authorization_handler e req =
               Inr (RedirectResponse
                      (construct_redirect_uri u
                         ([(''error'', ''invalid_scope''),
                           (''error_description'', ''Client was not registered with scope '' @ t')]
                          @ (case best_effort_extract_string ''state'' (Some ps) of
                               None \<Rightarrow> [] | Some s \<Rightarrow> [(''state'', s)])))
                      302 [(''Cache-Control'', ''no-store'')]))"
proof -
  from assms(7,8) obtain t' where t': "first_not_allowed (split_sp rs) (allowed_scopes c) = Some t'"
    using first_not_allowed_None [of "split_sp rs" "allowed_scopes c"]
    by (cases "first_not_allowed (split_sp rs) (allowed_scopes c)") auto
  have u: "validate_redirect_uri (ar_redirect_uri ar) c = Inr u"
    using assms(3,5) by (simp add: validate_redirect_uri_def)
  have s: "validate_scope (ar_scope ar) c
      = Inl (InvalidRequestError (''Client was not registered with scope '' @ t'))"
    using assms(6) t' by (simp add: validate_scope_def)
  let ?v5 = "\<lparr>state = ar_state ar, redirect_uri = Some u, client = Client c, params = Some ps\<rparr>"
  have "error_response e invalid_scope msg True ?v5
      = (Inr (report invalid_scope msg (load_state ?v5)), load_state ?v5)" for msg
    by (simp add: error_response_def load_client_def load_redirect_uri_def Let_def)
  with assms(1,2,4) u s model_validate_Inr(2) [OF assms(2)]
  have "authorization_handler e req =
               Inr (RedirectResponse
                      (construct_redirect_uri u
                         ([(''error'', ''invalid_scope''),
                           (''error_description'', ''Client was not registered with scope '' @ t')]
                          @ (case best_effort_extract_string ''state'' (Some ps) of
                               None \<Rightarrow> [] | Some s \<Rightarrow> [(''state'', s)])))
                      302 [(''Cache-Control'', ''no-store'')])"
    by (simp add: authorization_handler_def handler_try_def load_state_def report_def
        model_dump_def Let_def)
  with t' u show ?thesis by blast
qed

theorem C8_sole_redirect_uri_scope_error_witness:
  "authorization_handler example_env
     (GET [''client_id'' \<mapsto> PStr ''c1'', ''response_type'' \<mapsto> PStr ''code'',
           ''code_challenge'' \<mapsto> PStr ''xyz'', ''scope'' \<mapsto> PStr ''read exec'',
           ''state'' \<mapsto> PStr ''s1''])
   = Inr (RedirectResponse
            (construct_redirect_uri ''https://a.example/cb''
               [(''error'', ''invalid_scope''),
                (''error_description'', ''Client was not registered with scope exec''),
                (''state'', ''s1'')])
            302 [(''Cache-Control'', ''no-store'')])"
proof -
  let ?ps = "[''client_id'' \<mapsto> PStr ''c1'', ''response_type'' \<mapsto> PStr ''code'',
           ''code_challenge'' \<mapsto> PStr ''xyz'', ''scope'' \<mapsto> PStr ''read exec'',
           ''state'' \<mapsto> PStr ''s1'']"
  let ?ar = "\<lparr>ar_client_id = ''c1'', ar_redirect_uri = None,
              ar_response_type = ''code'', ar_code_challenge = ''xyz'',
              ar_code_challenge_method = ''S256'', ar_state = Some ''s1'',
              ar_scope = Some ''read exec''\<rparr>"
  have p: "request_params (GET ?ps) = Inr ?ps" by (simp add: request_params_def GET_def)
  have m: "model_validate example_env ?ps = Inr ?ar" by (simp add: model_defs example_defs)
  have n: "ar_redirect_uri ?ar = None" by simp
  have g: "get_client example_env (ar_client_id ?ar) = Some example_client"
    by (simp add: example_defs)
  have u: "redirect_uris example_client = [''https://a.example/cb'']" by (simp add: example_defs)
  have s: "ar_scope ?ar = Some ''read exec''" by simp
  have t1: "''exec'' \<in> set (split_sp ''read exec'')" by simp
  have t2: "''exec'' \<notin> set (allowed_scopes example_client)"
    by (simp add: allowed_scopes_def example_defs)
  from C8_sole_redirect_uri_scope_error [OF p m n g u s t1 t2] show ?thesis
    by (simp add: best_effort_extract_string_def allowed_scopes_def example_defs)
qed

subsection \<open>Revocation\<close>

text \<open>
  Claim C9 says that the handler returns the 200 response whenever parsing and
  authentication succeed. The hook is awaited outside any \<open>try\<close>: for the provider below,
  whose hook raises on a token that its store does not hold, the request is parsed and
  authenticated, the hook is called, and its exception leaves the handler instead of a
  response.
\<close>

theorem C9_raising_hook_counterexample:
  "model_validate_json raising_revoke_env ''t1'' = Inr ''t1''
   \<and> client_authenticator raising_revoke_env ''t1'' = Inr example_client
   \<and> revocation_handler raising_revoke_env ''t1'' \<lparr>store = [''t2''], hook_calls = []\<rparr>
       = (Inl (Exception ''unknown token''),
          \<lparr>store = [''t2''], hook_calls = [(example_client, ''t1'')]\<rparr>)"
  by (simp add: revocation_handler_def raising_revoke_env_def example_revoke_env_def)

text \<open>
  Claim C9, amended. When the body does not parse, or the authenticator rejects the parsed
  request, the handler raises and leaves the world as it was, so the hook is not called.
  When parsing and authentication succeed and no hook is configured, the handler returns
  the empty 200 response with the headers \<open>Cache-Control: no-store\<close> and
  \<open>Pragma: no-cache\<close>. When a hook is configured, the handler calls it exactly once, with the
  authenticated client and the parsed request, on the store as it is; if the hook returns,
  the handler returns the same 200 response, whatever the hook did to the store, and if the
  hook raises, its exception leaves the handler.
\<close>

theorem C9_revocation_hook_and_response:
  "(model_validate_json e b = Inl m
      \<longrightarrow> revocation_handler e b w
            = (Inl (InvalidRequestError (''Invalid request body: '' @ m)), w))
   \<and> (model_validate_json e b = Inr rr \<and> client_authenticator e rr = Inl ex
      \<longrightarrow> revocation_handler e b w = (Inl ex, w))
   \<and> (model_validate_json e b = Inr rr \<and> client_authenticator e rr = Inr c
        \<and> revoke_token e = None
      \<longrightarrow> revocation_handler e b w
            = (Inr (Response 200 []
                      [(''Cache-Control'', ''no-store''), (''Pragma'', ''no-cache'')]), w))
   \<and> (model_validate_json e b = Inr rr \<and> client_authenticator e rr = Inr c
        \<and> revoke_token e = Some hook \<and> hook c rr (store w) = (None, st')
      \<longrightarrow> revocation_handler e b w
            = (Inr (Response 200 []
                      [(''Cache-Control'', ''no-store''), (''Pragma'', ''no-cache'')]),
               w\<lparr>store := st', hook_calls := hook_calls w @ [(c, rr)]\<rparr>))
   \<and> (model_validate_json e b = Inr rr \<and> client_authenticator e rr = Inr c
        \<and> revoke_token e = Some hook \<and> hook c rr (store w) = (Some ex', st')
      \<longrightarrow> revocation_handler e b w
            = (Inl ex', w\<lparr>store := st', hook_calls := hook_calls w @ [(c, rr)]\<rparr>))"
  by (simp add: revocation_handler_def Let_def)

theorem C9_revocation_hook_and_response_witness:
  "revocation_handler example_revoke_env ''t1'' \<lparr>store = [''t1'', ''t2''], hook_calls = []\<rparr>
     = (Inr (Response 200 [] [(''Cache-Control'', ''no-store''), (''Pragma'', ''no-cache'')]),
        \<lparr>store = [''t2''], hook_calls = [(example_client, ''t1'')]\<rparr>)
   \<and> revocation_handler example_revoke_env ''t1'' \<lparr>store = [''t2''], hook_calls = []\<rparr>
     = (Inr (Response 200 [] [(''Cache-Control'', ''no-store''), (''Pragma'', ''no-cache'')]),
        \<lparr>store = [''t2''], hook_calls = [(example_client, ''t1'')]\<rparr>)
   \<and> revocation_handler example_revoke_env ''t9'' \<lparr>store = [''t2''], hook_calls = []\<rparr>
     = (Inl (Exception ''invalid client credentials''), \<lparr>store = [''t2''], hook_calls = []\<rparr>)
   \<and> revocation_handler example_revoke_env [] \<lparr>store = [''t2''], hook_calls = []\<rparr>
     = (Inl (InvalidRequestError ''Invalid request body: empty body''),
        \<lparr>store = [''t2''], hook_calls = []\<rparr>)"
proof -
  let ?hook = "\<lambda>(c::OAuthClientInformationFull) (r::string) (st::string list).
                 (None::exn option, removeAll r st)"
  let ?w1 = "\<lparr>store = [''t1'', ''t2''], hook_calls = []\<rparr> :: (string, string list) revoke_world"
  let ?w2 = "\<lparr>store = [''t2''], hook_calls = []\<rparr> :: (string, string list) revoke_world"
  have p1: "model_validate_json example_revoke_env ''t1'' = Inr ''t1''"
    and a1: "client_authenticator example_revoke_env ''t1'' = Inr example_client"
    and p9: "model_validate_json example_revoke_env ''t9'' = Inr ''t9''"
    and a9: "client_authenticator example_revoke_env ''t9''
              = Inl (Exception ''invalid client credentials'')"
    and p0: "model_validate_json example_revoke_env [] = Inl ''empty body''"
    and h: "revoke_token example_revoke_env = Some ?hook"
    by (simp_all add: example_revoke_env_def)
  have h1: "?hook example_client ''t1'' (store ?w1) = (None, [''t2''])"
    and h2: "?hook example_client ''t1'' (store ?w2) = (None, [''t2''])"
    by simp_all
  from C9_revocation_hook_and_response
         [of example_revoke_env "''t1''" "''empty body''" ?w1 "''t1''" "Exception []"
            example_client ?hook "[''t2'']" "Exception []"]
       p1 a1 h h1
  have r1: "revocation_handler example_revoke_env ''t1'' ?w1
     = (Inr (Response 200 [] [(''Cache-Control'', ''no-store''), (''Pragma'', ''no-cache'')]),
        \<lparr>store = [''t2''], hook_calls = [(example_client, ''t1'')]\<rparr>)"
    by simp
  from C9_revocation_hook_and_response
         [of example_revoke_env "''t1''" "''empty body''" ?w2 "''t1''" "Exception []"
            example_client ?hook "[''t2'']" "Exception []"]
       p1 a1 h h2
  have r2: "revocation_handler example_revoke_env ''t1'' ?w2
     = (Inr (Response 200 [] [(''Cache-Control'', ''no-store''), (''Pragma'', ''no-cache'')]),
        \<lparr>store = [''t2''], hook_calls = [(example_client, ''t1'')]\<rparr>)"
    by simp
  from C9_revocation_hook_and_response
         [of example_revoke_env "''t9''" "''empty body''" ?w2 "''t9''"
            "Exception ''invalid client credentials''" example_client ?hook "[''t2'']"
            "Exception []"]
       p9 a9
  have r3: "revocation_handler example_revoke_env ''t9'' ?w2
     = (Inl (Exception ''invalid client credentials''), ?w2)"
    by simp
  from C9_revocation_hook_and_response
         [of example_revoke_env "[]" "''empty body''" ?w2 "''t9''" "Exception []"
            example_client ?hook "[''t2'']" "Exception []"]
       p0
  have r4: "revocation_handler example_revoke_env [] ?w2
     = (Inl (InvalidRequestError ''Invalid request body: empty body''), ?w2)"
    by simp
  from r1 r2 r3 r4 show ?thesis by blast
qed

subsection \<open>Clients registered without a scope\<close>

text \<open>
  Claim C10. A client registered without a scope string has the empty allowed list, so both
  scope validators reject every supplied scope string (the empty string included, whose only
  token is the empty token) with the first token in the message, and they succeed only when
  the request carries no scope, returning no constraint.
\<close>

theorem C10_no_registered_scope:
  assumes "scope c = None"
  shows "validate_scope (Some rs) c =
           Inl (InvalidRequestError
                  (''Client was not registered with scope '' @ hd (split_sp rs)))
       \<and> OAuthClientMetadata_validate_scope c (Some rs) =
           Inl (InvalidScopeError
                  (''Client was not registered with scope '' @ hd (split_sp rs)))
       \<and> (validate_scope requested c = Inr r \<longleftrightarrow> requested = None \<and> r = None)
       \<and> (OAuthClientMetadata_validate_scope c requested = Inr r
            \<longleftrightarrow> requested = None \<and> r = None)
       \<and> split_sp [] = [[]]"
  using assms split_sp_not_Nil
  by (auto simp: validate_scope_def OAuthClientMetadata_validate_scope_def allowed_scopes_def
      first_not_allowed_Nil split: option.splits)

theorem C10_no_registered_scope_witness:
  "scope example_client2 = None
   \<and> validate_scope (Some []) example_client2
       = Inl (InvalidRequestError ''Client was not registered with scope '')
   \<and> OAuthClientMetadata_validate_scope example_client2 (Some [])
       = Inl (InvalidScopeError ''Client was not registered with scope '')
   \<and> validate_scope None example_client2 = Inr None
   \<and> OAuthClientMetadata_validate_scope example_client2 None = Inr None"
proof -
  have h: "scope example_client2 = None" by (simp add: example_client2_def)
  show ?thesis
    using h C10_no_registered_scope [OF h, of "[]" None None] by simp
qed

end
